theory Spec2Isabelle
  imports
    Complex_Main
    "HOL-Library.Sublist"
    "HOL-Library.Char_ord"
    "HOL-Library.List_Lexorder"
begin

section \<open>Python strings\<close>

text \<open>
  A Python \<open>str\<close> is modelled as a \<^typ>\<open>string\<close> whose characters are the code points
  0..255. On these code points the definitions below are what CPython computes:
  \<open>str.isspace\<close>, \<open>str.lower\<close>, \<open>str.strip\<close>, \<open>str.split\<close>, \<open>str.splitlines\<close>,
  \<open>str.join\<close> and the operator \<open>in\<close>. Strings are compared by code point, in
  lexicographic order, as Python compares them.
\<close>

definition is_space :: "char \<Rightarrow> bool" where
  "is_space c = ((of_char c :: nat) \<in> {9, 10, 11, 12, 13, 28, 29, 30, 31, 32, 133, 160})"

definition lower_char :: "char \<Rightarrow> char" where
  "lower_char c =
     (let n = (of_char c :: nat)
      in if (65 \<le> n \<and> n \<le> 90) \<or> (192 \<le> n \<and> n \<le> 222 \<and> n \<noteq> 215)
         then char_of (n + 32) else c)"

definition py_lower :: "string \<Rightarrow> string" where
  "py_lower s = map lower_char s"

definition py_strip :: "string \<Rightarrow> string" where
  "py_strip s = rev (dropWhile is_space (rev (dropWhile is_space s)))"

text \<open>\<open>s.split()\<close>: the maximal runs of characters that are not whitespace.\<close>

fun split_aux :: "string \<Rightarrow> string \<Rightarrow> string list" where
  "split_aux cur [] = (if cur = [] then [] else [rev cur])"
| "split_aux cur (c # cs) =
     (if is_space c
      then (if cur = [] then split_aux [] cs else rev cur # split_aux [] cs)
      else split_aux (c # cur) cs)"

definition py_split :: "string \<Rightarrow> string list" where
  "py_split s = split_aux [] s"

text \<open>\<open>s.split(sep)\<close> for a separator of one character: never the empty list.\<close>

fun split_on :: "char \<Rightarrow> string \<Rightarrow> string list" where
  "split_on sep [] = [[]]"
| "split_on sep (c # cs) =
     (if c = sep then [] # split_on sep cs
      else (case split_on sep cs of
              [] \<Rightarrow> [[c]]
            | p # ps \<Rightarrow> (c # p) # ps))"

definition strip_char :: "char \<Rightarrow> string \<Rightarrow> string" where
  "strip_char x s = rev (dropWhile (\<lambda>c. c = x) (rev (dropWhile (\<lambda>c. c = x) s)))"

definition is_linebreak :: "char \<Rightarrow> bool" where
  "is_linebreak c = ((of_char c :: nat) \<in> {10, 11, 12, 13, 28, 29, 30, 133})"

fun splitlines_aux :: "string \<Rightarrow> string \<Rightarrow> string list" where
  "splitlines_aux cur [] = (if cur = [] then [] else [rev cur])"
| "splitlines_aux cur [c] = (if is_linebreak c then [rev cur] else [rev (c # cur)])"
| "splitlines_aux cur (c # d # cs) =
     (if c = CHR 0x0D \<and> d = CHR 0x0A then rev cur # splitlines_aux [] cs
      else if is_linebreak c then rev cur # splitlines_aux [] (d # cs)
      else splitlines_aux (c # cur) (d # cs))"

definition py_splitlines :: "string \<Rightarrow> string list" where
  "py_splitlines s = splitlines_aux [] s"

fun py_join :: "string \<Rightarrow> string list \<Rightarrow> string" where
  "py_join sep [] = []"
| "py_join sep [x] = x"
| "py_join sep (x # y # ys) = x @ sep @ py_join sep (y # ys)"

text \<open>\<open>a in b\<close> on strings is \<^term>\<open>sublist a b\<close>: \<open>b = ps @ a @ ss\<close> for some \<open>ps\<close>, \<open>ss\<close>.\<close>

text \<open>Truthiness of an \<open>Optional[str]\<close>: \<open>None\<close> and the empty string are false.\<close>

fun truthy :: "string option \<Rightarrow> bool" where
  "truthy None = False"
| "truthy (Some s) = (s \<noteq> [])"

section \<open>Normalisation\<close>

definition is_az09 :: "char \<Rightarrow> bool" where
  "is_az09 c =
     (let n = (of_char c :: nat) in (97 \<le> n \<and> n \<le> 122) \<or> (48 \<le> n \<and> n \<le> 57))"

text \<open>
  \<open>re.sub(r"[^a-z0-9]+", "", s)\<close>: scanning from the left, every maximal run of characters
  outside \<open>[a-z0-9]\<close> is one match, replaced by the empty string.
\<close>

function re_sub_non_az09 :: "string \<Rightarrow> string" where
  "re_sub_non_az09 [] = []"
| "re_sub_non_az09 (c # cs) =
     (if is_az09 c then c # re_sub_non_az09 cs
      else re_sub_non_az09 (dropWhile (\<lambda>d. \<not> is_az09 d) cs))"
  by pat_completeness auto
termination
  by (relation "measure length") (auto simp: length_dropWhile_le less_Suc_eq_le)

text \<open>The source's \<open>norm\<close> (the name \<open>norm\<close> is taken in HOL).\<close>

definition norm_str :: "string \<Rightarrow> string" where
  "norm_str s = re_sub_non_az09 (py_lower s)"

section \<open>Data model\<close>

definition BASE_URL :: string where
  "BASE_URL = ''https://pixelbypixel.studio/emotes''"

text \<open>A tile as stored in the list cache, and a tile as the page script returns it.\<close>

record tile =
  name :: string
  imageUrl :: "string option"

record raw_tile =
  raw_name :: "string option"
  raw_imageUrl :: "string option"

text \<open>\<open>_emote_list_cache\<close>. Timestamps are real numbers: the rounding of floats is left out.\<close>

record list_cache =
  updated_at :: real
  tiles :: "tile list"

text \<open>The dictionary \<open>parse_emote_details\<close> returns, and the same with \<open>imageUrl\<close> attached.\<close>

record details =
  emoteName :: string
  channel :: "string option"
  channelUrl :: "string option"
  source :: "string option"
  tier :: "string option"
  expires :: "string option"
  detailsUrl :: string
  notFound :: bool

record detail_record = details +
  detail_imageUrl :: "string option"

record cached_detail =
  cachedAt :: real
  data :: detail_record

text \<open>
  The process state: the two caches, and the log of the pages the headless browser was
  started on (one entry for each render attempt, the newest last).
\<close>

record world =
  emote_list_cache :: list_cache
  detail_cache :: "string \<rightharpoonup> cached_detail"
  renders :: "string list"

text \<open>
  Exceptions. \<open>PlaywrightTimeoutError\<close> and \<open>PlaywrightError\<close> are the two imported
  classes (named \<open>TimeoutError\<close> and \<open>Error\<close> in their module); \<open>OtherException\<close> is any
  other subclass of \<open>Exception\<close>, with its class name and message.
\<close>

datatype exn =
    PlaywrightTimeoutError string
  | PlaywrightError string
  | HTTPException nat string
  | RequestValidationError
  | OtherException string string

fun is_playwright :: "exn \<Rightarrow> bool" where
  "is_playwright (PlaywrightTimeoutError m) = True"
| "is_playwright (PlaywrightError m) = True"
| "is_playwright e = False"

fun type_name :: "exn \<Rightarrow> string" where
  "type_name (PlaywrightTimeoutError m) = ''TimeoutError''"
| "type_name (PlaywrightError m) = ''Error''"
| "type_name (HTTPException c d) = ''HTTPException''"
| "type_name RequestValidationError = ''RequestValidationError''"
| "type_name (OtherException n m) = n"

fun message :: "exn \<Rightarrow> string" where
  "message (PlaywrightTimeoutError m) = m"
| "message (PlaywrightError m) = m"
| "message (HTTPException c d) = d"
| "message RequestValidationError = []"
| "message (OtherException n m) = m"

section \<open>The tile list\<close>

text \<open>
  \<open>fetch_emote_tiles_rendered\<close>. What the browser does (starting, navigating, waiting for
  the selector, running the page script) is the argument \<open>browser\<close>: the exception it
  raises, or the list the script returns. The loop over that list is \<open>dedup\<close>, with the
  set \<open>seen\<close> and the list \<open>out\<close> as the source has them; \<open>list.sort\<close> is a stable sort.
\<close>

fun dedup :: "raw_tile list \<Rightarrow> string set \<Rightarrow> tile list \<Rightarrow> tile list" where
  "dedup [] seen out = out"
| "dedup (t # ts) seen out =
     (let n = py_strip (case raw_name t of None \<Rightarrow> [] | Some s \<Rightarrow> s)
      in if n = [] \<or> n \<in> seen then dedup ts seen out
         else dedup ts (insert n seen) (out @ [\<lparr>name = n, imageUrl = raw_imageUrl t\<rparr>]))"

definition fetch_emote_tiles_rendered ::
  "(exn + raw_tile list) \<Rightarrow> world \<Rightarrow> (exn + tile list) \<times> world" where
  "fetch_emote_tiles_rendered browser w =
     (let w1 = w\<lparr>renders := renders w @ [BASE_URL]\<rparr>
      in case browser of
           Inl e \<Rightarrow> (Inl e, w1)
         | Inr raw \<Rightarrow> (Inr (sort_key (\<lambda>x. py_lower (name x)) (dedup raw {} [])), w1))"

text \<open>\<open>ensure_emote_list\<close>; \<open>now\<close> is what \<open>time.time()\<close> returns.\<close>

definition ensure_emote_list ::
  "real \<Rightarrow> int \<Rightarrow> (exn + raw_tile list) \<Rightarrow> world \<Rightarrow> (exn + unit) \<times> world" where
  "ensure_emote_list now max_age_seconds browser w =
     (if tiles (emote_list_cache w) \<noteq> []
         \<and> now - updated_at (emote_list_cache w) < of_int max_age_seconds
      then (Inr (), w)
      else
        (case fetch_emote_tiles_rendered browser w of
           (Inl e, w1) \<Rightarrow>
             (if is_playwright e
              then (Inl (HTTPException 500
                      (''Playwright failed to render emotes list: ''
                         @ type_name e @ '': '' @ message e)), w1)
              else (Inl e, w1))
         | (Inr ts, w1) \<Rightarrow>
             (if ts = []
              then (Inl (HTTPException 502 ''Parsed 0 emote tiles after rendering.''),
                    w1\<lparr>emote_list_cache := (emote_list_cache w1)\<lparr>updated_at := 0\<rparr>\<rparr>)
              else (Inr (),
                    w1\<lparr>emote_list_cache :=
                         (emote_list_cache w1)\<lparr>tiles := ts, updated_at := now\<rparr>\<rparr>))))"

definition default_max_age :: int where
  "default_max_age = 6 * 60 * 60"

section \<open>Search\<close>

text \<open>The filter of \<open>api_emotes\<close>: the list \<open>tiles\<close> after the \<open>if q:\<close> block.\<close>

definition search_matches :: "string \<Rightarrow> tile list \<Rightarrow> tile list" where
  "search_matches q ts =
     (if q \<noteq> []
      then (let terms = map norm_str (filter (\<lambda>t. py_strip t \<noteq> []) (py_split q))
            in filter (\<lambda>t. list_all (\<lambda>term. sublist term (norm_str (name t))) terms) ts)
      else ts)"

text \<open>\<open>xs[:n]\<close>: a negative \<open>n\<close> counts from the end.\<close>

definition slice_to :: "'a list \<Rightarrow> int \<Rightarrow> 'a list" where
  "slice_to xs n = (if 0 \<le> n then take (nat n) xs else take (length xs - nat (- n)) xs)"

record emotes_response =
  count :: nat
  updatedAt :: real
  items :: "tile list"

text \<open>
  \<open>api_emotes\<close>. The declaration \<open>Query(ge=1, le=2000)\<close> makes the framework reject any
  other \<open>limit\<close> before the handler runs.
\<close>

definition api_emotes ::
  "string \<Rightarrow> int \<Rightarrow> real \<Rightarrow> (exn + raw_tile list) \<Rightarrow> world \<Rightarrow> (exn + emotes_response) \<times> world"
  where
  "api_emotes q limit now browser w =
     (if limit < 1 \<or> 2000 < limit then (Inl RequestValidationError, w)
      else
        (case ensure_emote_list now default_max_age browser w of
           (Inl e, w1) \<Rightarrow> (Inl e, w1)
         | (Inr u, w1) \<Rightarrow>
             (let ts = search_matches q (tiles (emote_list_cache w1))
              in (Inr \<lparr>count = length ts,
                       updatedAt = updated_at (emote_list_cache w1),
                       items = slice_to ts limit\<rparr>, w1))))"

record refresh_response =
  ok :: bool
  refreshed_count :: nat
  refreshed_updatedAt :: real

text \<open>\<open>api_refresh\<close>; its keys \<open>count\<close> and \<open>updatedAt\<close> are the last two fields.\<close>

definition api_refresh ::
  "real \<Rightarrow> (exn + raw_tile list) \<Rightarrow> world \<Rightarrow> (exn + refresh_response) \<times> world" where
  "api_refresh now browser w =
     (let w0 = w\<lparr>emote_list_cache := (emote_list_cache w)\<lparr>updated_at := 0, tiles := []\<rparr>\<rparr>
      in case ensure_emote_list now 0 browser w0 of
           (Inl e, w1) \<Rightarrow> (Inl e, w1)
         | (Inr u, w1) \<Rightarrow>
             (Inr \<lparr>ok = True,
                   refreshed_count = length (tiles (emote_list_cache w1)),
                   refreshed_updatedAt = updated_at (emote_list_cache w1)\<rparr>, w1))"

section \<open>Details of one emote\<close>

text \<open>
  The rendered page as \<open>BeautifulSoup\<close> presents it to \<open>parse_emote_details\<close>: the
  anchors \<open>select('a[href*="twitch.tv/"]')\<close> returns, in document order, each with its
  \<open>get("href")\<close> and its \<open>get_text(strip=True)\<close>, and the string \<open>get_text("\n")\<close>.
\<close>

record anchor =
  href :: "string option"
  anchor_text :: string

record soup =
  twitch_anchors :: "anchor list"
  page_text :: string

text \<open>The loop over the anchors: the first one with a true \<open>href\<close> and a true text.\<close>

fun first_labelled :: "anchor list \<Rightarrow> (string \<times> string) option" where
  "first_labelled [] = None"
| "first_labelled (a # as) =
     (if truthy (href a) \<and> anchor_text a \<noteq> [] then Some (the (href a), anchor_text a)
      else first_labelled as)"

text \<open>
  The channel, with the fallback block. \<open>urlparse_path u\<close> is \<open>urlparse(u).path\<close> of the
  standard library, \<open>None\<close> when it raises; it is a parameter.
\<close>

definition parse_channel ::
  "(string \<Rightarrow> string option) \<Rightarrow> anchor list \<Rightarrow> string option \<times> string option" where
  "parse_channel urlparse_path as =
     (let (channel_url, channel_label) =
            (case first_labelled as of
               None \<Rightarrow> (None, None)
             | Some (h, t) \<Rightarrow> (Some h, Some t))
      in if \<not> truthy channel_label \<and> truthy channel_url
         then (case urlparse_path (the channel_url) of
                 None \<Rightarrow> (channel_url, channel_label)
               | Some p \<Rightarrow>
                   (let path = strip_char CHR ''/'' p
                    in if path \<noteq> []
                       then (channel_url, Some (hd (split_on CHR ''/'' path)))
                       else (channel_url, channel_label)))
         else (channel_url, channel_label))"

text \<open>\<open>xs.index(x)\<close> and \<open>xs.index(x, i)\<close>; \<open>None\<close> is the \<open>ValueError\<close>.\<close>

fun list_index :: "'a list \<Rightarrow> 'a \<Rightarrow> nat option" where
  "list_index [] x = None"
| "list_index (y # ys) x = (if y = x then Some 0 else map_option Suc (list_index ys x))"

definition list_index_from :: "'a list \<Rightarrow> 'a \<Rightarrow> nat \<Rightarrow> nat option" where
  "list_index_from xs x i = map_option (\<lambda>j. i + j) (list_index (drop i xs) x)"

text \<open>The line read after the index \<open>exp_i\<close> of the marker, when there is one.\<close>

definition line_after :: "string list \<Rightarrow> nat option \<Rightarrow> string option" where
  "line_after lines r =
     (case r of
        None \<Rightarrow> None
      | Some exp_i \<Rightarrow> if exp_i + 1 < length lines then Some (lines ! (exp_i + 1)) else None)"

text \<open>
  The positional block of \<open>parse_emote_details\<close>, from \<open>tier = None\<close> to the end of the
  \<open>if emote_name in lines\<close> statement: the values of \<open>source\<close>, \<open>tier\<close> and \<open>expires\<close>.
\<close>

definition positional_fields ::
  "string \<Rightarrow> string list \<Rightarrow> string option \<times> string option \<times> string option" where
  "positional_fields emote_name lines =
     (if emote_name \<in> set lines
      then (let i = the (list_index lines emote_name);
                source = (if i + 2 < length lines then Some (lines ! (i + 2)) else None);
                tier = (if i + 3 < length lines then Some (lines ! (i + 3)) else None);
                expires = line_after lines (list_index_from lines ''Expires:'' i)
            in (source, tier, expires))
      else (None, None, line_after lines (list_index lines ''Expires:'')))"

definition flatten_lines :: "string \<Rightarrow> string list" where
  "flatten_lines txt = map py_strip (filter (\<lambda>x. py_strip x \<noteq> []) (py_splitlines txt))"

definition parse_emote_details ::
  "(string \<Rightarrow> string option) \<Rightarrow> string \<Rightarrow> soup \<Rightarrow> details" where
  "parse_emote_details urlparse_path emote_name html =
     (let (channel_url, channel_label) = parse_channel urlparse_path (twitch_anchors html);
          lines = flatten_lines (page_text html);
          joined = py_join [CHR 0x0A] lines;
          not_found = sublist ''Emote not found'' joined;
          (source, tier, expires) = positional_fields emote_name lines
      in \<lparr>emoteName = emote_name,
          channel = channel_label,
          channelUrl = channel_url,
          source = source,
          tier = tier,
          expires = expires,
          detailsUrl = BASE_URL @ ''?emoteName='' @ emote_name,
          notFound = not_found\<rparr>)"

text \<open>
  \<open>_render_page_html\<close>: one render attempt; \<open>page\<close> is what the browser does, the exception
  it raises or the final document (a timeout of the wait for the text is swallowed in
  the source, so it is not an outcome of its own).
\<close>

definition render_page_html ::
  "string \<Rightarrow> string option \<Rightarrow> (exn + soup) \<Rightarrow> world \<Rightarrow> (exn + soup) \<times> world" where
  "render_page_html url wait_for_text page w = (page, w\<lparr>renders := renders w @ [url]\<rparr>)"

text \<open>The generator given to \<open>next\<close>: the image of the first tile with the name.\<close>

fun find_image :: "tile list \<Rightarrow> string \<Rightarrow> string option" where
  "find_image [] n = None"
| "find_image (t # ts) n = (if name t = n then imageUrl t else find_image ts n)"

text \<open>
  \<open>api_emote_detail\<close>. \<open>t_cached\<close>, \<open>t_list\<close> and \<open>t_store\<close> are the three readings of the
  clock (at the cache test, inside \<open>ensure_emote_list\<close>, at the store); \<open>page\<close> and
  \<open>browser\<close> are what the two renders do. \<open>except Exception\<close> catches every \<^typ>\<open>exn\<close>.
\<close>

definition api_emote_detail ::
  "(string \<Rightarrow> string option) \<Rightarrow> string \<Rightarrow> real \<Rightarrow> (exn + soup) \<Rightarrow> real
     \<Rightarrow> (exn + raw_tile list) \<Rightarrow> real \<Rightarrow> world \<Rightarrow> (exn + detail_record) \<times> world" where
  "api_emote_detail urlparse_path emote_name t_cached page t_list browser t_store w =
     (case (case detail_cache w emote_name of
              None \<Rightarrow> None
            | Some cached \<Rightarrow>
                if t_cached - cachedAt cached < 24 * 60 * 60 then Some (data cached) else None)
      of
        Some d \<Rightarrow> (Inr d, w)
      | None \<Rightarrow>
          (let url = BASE_URL @ ''?emoteName='' @ emote_name
           in case render_page_html url (Some ''Expires:'') page w of
                (Inl e, w1) \<Rightarrow>
                  (if is_playwright e
                   then (Inl (HTTPException 500
                           (''Playwright failed to render emote details: ''
                              @ type_name e @ '': '' @ message e)), w1)
                   else (Inl e, w1))
              | (Inr html, w1) \<Rightarrow>
                  (let d = parse_emote_details urlparse_path emote_name html;
                       (r, w2) = ensure_emote_list t_list default_max_age browser w1;
                       img = (case r of
                                Inl e \<Rightarrow> None
                              | Inr u \<Rightarrow> find_image (tiles (emote_list_cache w2)) emote_name);
                       d1 = details.extend d (detail_record.fields img)
                   in (Inr d1,
                       w2\<lparr>detail_cache :=
                            (detail_cache w2)(emote_name \<mapsto> \<lparr>cachedAt = t_store, data = d1\<rparr>)\<rparr>))))"

section \<open>The specification's words\<close>

text \<open>Normalisation: lowercase, then keep only the characters of \<open>[a-z0-9]\<close>.\<close>

definition spec_norm :: "string \<Rightarrow> string" where
  "spec_norm s = filter is_az09 (map lower_char s)"

text \<open>A tile matches a query: every normalised term is a substring of the normalised name.\<close>

definition tile_matches :: "string \<Rightarrow> tile \<Rightarrow> bool" where
  "tile_matches q t =
     (\<forall>term\<in>set (py_split q). sublist (spec_norm term) (spec_norm (name t)))"

text \<open>The freshness predicate: the list is not empty and is younger than the maximal age.\<close>

definition cache_usable :: "real \<Rightarrow> int \<Rightarrow> list_cache \<Rightarrow> bool" where
  "cache_usable now max_age c = (tiles c \<noteq> [] \<and> now - updated_at c < of_int max_age)"

text \<open>A cached detail record is served: there is one, younger than 24 hours.\<close>

definition detail_fresh :: "world \<Rightarrow> string \<Rightarrow> real \<Rightarrow> bool" where
  "detail_fresh w emote_name t =
     (case detail_cache w emote_name of
        None \<Rightarrow> False
      | Some cached \<Rightarrow> t - cachedAt cached < 24 * 60 * 60)"

text \<open>
  The stored list as the code builds it, in the specification's terms: names stripped of
  surrounding whitespace, empty names dropped, the first tile of each name kept, the
  result sorted (stably) by the lowercased name.
\<close>

definition strip_tile :: "raw_tile \<Rightarrow> tile" where
  "strip_tile t =
     \<lparr>name = py_strip (case raw_name t of None \<Rightarrow> [] | Some s \<Rightarrow> s),
      imageUrl = raw_imageUrl t\<rparr>"

function first_by_name :: "tile list \<Rightarrow> tile list" where
  "first_by_name [] = []"
| "first_by_name (t # ts) = t # first_by_name (filter (\<lambda>u. name u \<noteq> name t) ts)"
  by pat_completeness auto
termination
  by (relation "measure length") (auto simp: less_Suc_eq_le)

definition sort_by_lower_name :: "tile list \<Rightarrow> tile list" where
  "sort_by_lower_name ts = sort_key (\<lambda>x. py_lower (name x)) ts"

definition stored_tiles :: "raw_tile list \<Rightarrow> tile list" where
  "stored_tiles raw =
     sort_by_lower_name (first_by_name (filter (\<lambda>t. name t \<noteq> []) (map strip_tile raw)))"

text \<open>The stored list as the claim words it: the same without the stripping.\<close>

definition plain_tile :: "raw_tile \<Rightarrow> tile" where
  "plain_tile t =
     \<lparr>name = (case raw_name t of None \<Rightarrow> [] | Some s \<Rightarrow> s), imageUrl = raw_imageUrl t\<rparr>"

definition stored_as_claimed :: "raw_tile list \<Rightarrow> tile list" where
  "stored_as_claimed raw =
     sort_by_lower_name (first_by_name (filter (\<lambda>t. name t \<noteq> []) (map plain_tile raw)))"

text \<open>\<open>k\<close> is the first index from \<open>s\<close> on at which the list holds \<open>x\<close>.\<close>

definition first_at :: "'a list \<Rightarrow> 'a \<Rightarrow> nat \<Rightarrow> nat \<Rightarrow> bool" where
  "first_at xs x s k = (s \<le> k \<and> k < length xs \<and> xs ! k = x \<and> (\<forall>j\<in>{s..<k}. xs ! j \<noteq> x))"

section \<open>Concrete states\<close>

text \<open>A list cache filled at time 1000 with one tile, no detail cached, nothing rendered.\<close>

definition w_one :: world where
  "w_one =
     \<lparr>emote_list_cache = \<lparr>updated_at = 1000, tiles = [\<lparr>name = ''Alpha'', imageUrl = None\<rparr>]\<rparr>,
      detail_cache = Map.empty,
      renders = []\<rparr>"

text \<open>The same with three tiles.\<close>

definition w_two :: world where
  "w_two =
     \<lparr>emote_list_cache =
        \<lparr>updated_at = 1000,
         tiles = [\<lparr>name = ''Alpha'', imageUrl = None\<rparr>, \<lparr>name = ''Alps'', imageUrl = Some ''u''\<rparr>,
                  \<lparr>name = ''Beta'', imageUrl = None\<rparr>]\<rparr>,
      detail_cache = Map.empty,
      renders = []\<rparr>"

text \<open>A detail page: one labelled channel link and the six lines of the example.\<close>

definition page_goat :: soup where
  "page_goat =
     \<lparr>twitch_anchors =
        [\<lparr>href = Some ''https://www.twitch.tv/somechannel'', anchor_text = ''SomeChannel''\<rparr>],
      page_text =
        py_join [CHR 0x0A]
          [''Golden Goat'', ''SomeChannel'', ''Sub Gift'', ''Tier 3'', ''Expires:'', ''2025-01-01'']\<rparr>"

text \<open>Raw tiles: the example of the specification, and a name with a leading space.\<close>

definition raw_zeta :: "raw_tile list" where
  "raw_zeta =
     [\<lparr>raw_name = Some ''Zeta'', raw_imageUrl = Some ''u1''\<rparr>,
      \<lparr>raw_name = Some ''Alpha'', raw_imageUrl = Some ''u2''\<rparr>,
      \<lparr>raw_name = Some ''Zeta'', raw_imageUrl = Some ''u3''\<rparr>]"

definition raw_padded :: "raw_tile list" where
  "raw_padded = [\<lparr>raw_name = Some '' A'', raw_imageUrl = None\<rparr>]"

text \<open>Lines: the example of the specification, and a name on two lines.\<close>

definition goat_lines :: "string list" where
  "goat_lines =
     [''Golden Goat'', ''SomeChannel'', ''Sub Gift'', ''Tier 3'', ''Expires:'', ''2025-01-01'']"

definition twice_lines :: "string list" where
  "twice_lines = [''A'', ''A'', ''x'', ''y'']"

text \<open>A channel link without visible text (an image link, say).\<close>

definition unlabelled_link :: "anchor list" where
  "unlabelled_link = [\<lparr>href = Some ''https://www.twitch.tv/somechannel'', anchor_text = []\<rparr>]"

section \<open>Strings: facts about the model\<close>

lemma filter_dropWhile_not: "filter P (dropWhile (\<lambda>x. \<not> P x) xs) = filter P xs"
  by (induction xs) auto

lemma re_sub_non_az09_filter: "re_sub_non_az09 s = filter is_az09 s"
  by (induction s rule: re_sub_non_az09.induct) (auto simp: filter_dropWhile_not)

lemma norm_str_normalize: "norm_str s = spec_norm s"
  by (simp add: norm_str_def spec_norm_def py_lower_def re_sub_non_az09_filter)

lemma dropWhile_none: "\<forall>c\<in>set t. \<not> P c \<Longrightarrow> dropWhile P t = t"
  by (cases t) auto

lemma py_strip_no_space: "\<forall>c\<in>set t. \<not> is_space c \<Longrightarrow> py_strip t = t"
  by (simp add: py_strip_def dropWhile_none)

text \<open>
  \<open>split\<close> is determined by three equations: nothing for the empty string, a word for
  itself, and the two sides of a whitespace character apart.
\<close>

lemma split_aux_append_space:
  "is_space s \<Longrightarrow> split_aux cur (a @ s # b) = split_aux cur a @ split_aux [] b"
  by (induction a arbitrary: cur) auto

lemma split_aux_word:
  "\<forall>c\<in>set t. \<not> is_space c \<Longrightarrow> cur @ t \<noteq> [] \<Longrightarrow> split_aux cur t = [rev cur @ t]"
  by (induction t arbitrary: cur) auto

lemma py_split_Nil: "py_split [] = []"
  by (simp add: py_split_def)

lemma py_split_word: "t \<noteq> [] \<Longrightarrow> \<forall>c\<in>set t. \<not> is_space c \<Longrightarrow> py_split t = [t]"
  using split_aux_word [of t "[]"] by (simp add: py_split_def)

lemma py_split_append_space: "is_space s \<Longrightarrow> py_split (a @ s # b) = py_split a @ py_split b"
  by (simp add: py_split_def split_aux_append_space)

lemma split_aux_elems:
  "t \<in> set (split_aux cur s) \<Longrightarrow> \<forall>c\<in>set cur. \<not> is_space c \<Longrightarrow>
     t \<noteq> [] \<and> (\<forall>c\<in>set t. \<not> is_space c)"
proof (induction s arbitrary: cur)
  case Nil
  then show ?case by (cases "cur = []") auto
next
  case (Cons c cs)
  show ?case
  proof (cases "is_space c")
    case True
    show ?thesis
    proof (cases "cur = []")
      case True
      with \<open>is_space c\<close> Cons.prems have "t \<in> set (split_aux [] cs)" by simp
      then show ?thesis using Cons.IH [of "[]"] by simp
    next
      case False
      with \<open>is_space c\<close> Cons.prems have "t = rev cur \<or> t \<in> set (split_aux [] cs)" by simp
      then show ?thesis
      proof
        assume "t = rev cur"
        with False Cons.prems(2) show ?thesis by simp
      next
        assume "t \<in> set (split_aux [] cs)"
        then show ?thesis using Cons.IH [of "[]"] by simp
      qed
    qed
  next
    case False
    with Cons.prems have "t \<in> set (split_aux (c # cur) cs)" by simp
    moreover from False Cons.prems(2) have "\<forall>d\<in>set (c # cur). \<not> is_space d" by simp
    ultimately show ?thesis by (rule Cons.IH)
  qed
qed

lemma py_split_elems: "t \<in> set (py_split q) \<Longrightarrow> t \<noteq> [] \<and> (\<forall>c\<in>set t. \<not> is_space c)"
  using split_aux_elems [of t "[]" q] by (simp add: py_split_def)

lemma py_split_strip_filter: "filter (\<lambda>t. py_strip t \<noteq> []) (py_split q) = py_split q"
proof (rule filter_True, rule ballI)
  fix t assume "t \<in> set (py_split q)"
  then have "t \<noteq> []" and "\<forall>c\<in>set t. \<not> is_space c"
    using py_split_elems by blast+
  then show "py_strip t \<noteq> []"
    by (simp add: py_strip_no_space)
qed

section \<open>The match set of the search\<close>

lemma list_all_terms:
  "list_all (\<lambda>term. sublist term (norm_str (name t))) (map norm_str (py_split q))
     = tile_matches q t"
  by (simp add: tile_matches_def list_all_iff norm_str_normalize)

lemma search_matches_filter: "search_matches q ts = filter (tile_matches q) ts"
proof (cases "q = []")
  case True
  then show ?thesis
    by (simp add: search_matches_def tile_matches_def py_split_Nil)
next
  case False
  then have "search_matches q ts =
      filter (\<lambda>t. list_all (\<lambda>term. sublist term (norm_str (name t)))
                    (map norm_str (py_split q))) ts"
    by (simp add: search_matches_def py_split_strip_filter)
  then show ?thesis
    by (simp only: list_all_terms)
qed

text \<open>
  C1: for every query \<open>q\<close> and every tile of the list, the tile is in the match set of the
  search if and only if, for every whitespace-separated term of \<open>q\<close>, the normalisation
  of the term (lowercased, every character outside \<open>[a-z0-9]\<close> removed) is a substring of
  the normalisation of the tile's name.
\<close>

theorem search_matches_iff:
  "t \<in> set (search_matches q ts) \<longleftrightarrow>
     t \<in> set ts
     \<and> (\<forall>term\<in>set (py_split q). sublist (spec_norm term) (spec_norm (name t)))"
  by (simp add: search_matches_filter tile_matches_def)

theorem search_matches_iff_witness:
  "\<lparr>name = ''Golden Goat'', imageUrl = None\<rparr>
     \<in> set (search_matches ''goat GOLDEN-''
         [\<lparr>name = ''Golden Frog'', imageUrl = None\<rparr>, \<lparr>name = ''Golden Goat'', imageUrl = None\<rparr>])
   \<and> py_split ''goat GOLDEN-'' = [''goat'', ''GOLDEN-'']
   \<and> sublist (spec_norm ''goat'') (spec_norm ''Golden Goat'')
   \<and> sublist (spec_norm ''GOLDEN-'') (spec_norm ''Golden Goat'')
   \<and> \<lparr>name = ''Golden Frog'', imageUrl = None\<rparr>
     \<notin> set (search_matches ''goat GOLDEN-''
         [\<lparr>name = ''Golden Frog'', imageUrl = None\<rparr>, \<lparr>name = ''Golden Goat'', imageUrl = None\<rparr>])
   \<and> \<not> sublist (spec_norm ''goat'') (spec_norm ''Golden Frog'')"
proof -
  have s: "py_split ''goat GOLDEN-'' = [''goat'', ''GOLDEN-'']"
    by code_simp
  have a: "sublist (spec_norm ''goat'') (spec_norm ''Golden Goat'')"
    by code_simp
  have b: "sublist (spec_norm ''GOLDEN-'') (spec_norm ''Golden Goat'')"
    by code_simp
  have c: "\<not> sublist (spec_norm ''goat'') (spec_norm ''Golden Frog'')"
    by code_simp
  from s a b c
    search_matches_iff [of "\<lparr>name = ''Golden Goat'', imageUrl = None\<rparr>" "''goat GOLDEN-''"
      "[\<lparr>name = ''Golden Frog'', imageUrl = None\<rparr>, \<lparr>name = ''Golden Goat'', imageUrl = None\<rparr>]"]
    search_matches_iff [of "\<lparr>name = ''Golden Frog'', imageUrl = None\<rparr>" "''goat GOLDEN-''"
      "[\<lparr>name = ''Golden Frog'', imageUrl = None\<rparr>, \<lparr>name = ''Golden Goat'', imageUrl = None\<rparr>]"]
  show ?thesis
    by simp
qed

section \<open>The list cache\<close>

lemma ensure_usable:
  "cache_usable now max_age (emote_list_cache w) \<Longrightarrow>
     ensure_emote_list now max_age browser w = (Inr (), w)"
  by (simp add: ensure_emote_list_def cache_usable_def)

lemma renders_ensure_fetch:
  "\<not> cache_usable now max_age (emote_list_cache w) \<Longrightarrow>
     renders (snd (ensure_emote_list now max_age browser w)) = renders w @ [BASE_URL]"
  by (cases browser)
     (simp_all add: ensure_emote_list_def cache_usable_def fetch_emote_tiles_rendered_def)

lemma ensure_raises_unchanged:
  "\<not> cache_usable now max_age (emote_list_cache w) \<Longrightarrow>
     \<exists>e'. ensure_emote_list now max_age (Inl e) w
            = (Inl e', w\<lparr>renders := renders w @ [BASE_URL]\<rparr>)"
  by (simp add: ensure_emote_list_def fetch_emote_tiles_rendered_def cache_usable_def)

lemma ensure_zero_tiles:
  "\<not> cache_usable now max_age (emote_list_cache w) \<Longrightarrow>
   fst (fetch_emote_tiles_rendered browser w) = Inr [] \<Longrightarrow>
     ensure_emote_list now max_age browser w
       = (Inl (HTTPException 502 ''Parsed 0 emote tiles after rendering.''),
          w\<lparr>renders := renders w @ [BASE_URL],
            emote_list_cache := (emote_list_cache w)\<lparr>updated_at := 0\<rparr>\<rparr>)"
  by (cases browser)
     (auto simp: ensure_emote_list_def fetch_emote_tiles_rendered_def cache_usable_def)

lemma fetch_cache_irrelevant:
  "fst (fetch_emote_tiles_rendered browser (w\<lparr>emote_list_cache := c\<rparr>))
     = fst (fetch_emote_tiles_rendered browser w)"
  by (cases browser) (simp_all add: fetch_emote_tiles_rendered_def)

lemma not_usable_empty: "\<not> cache_usable now max_age (c\<lparr>updated_at := u, tiles := []\<rparr>)"
  by (simp add: cache_usable_def)

text \<open>
  C2: \<open>ensure_emote_list\<close> performs no refetch (the log of renders is unchanged) if and
  only if the cached list is not empty and \<open>now - updated_at < max_age\<close>; it then returns
  with the state unchanged. An empty list forces a refetch, whatever its age.
\<close>

theorem ensure_emote_list_refetch_iff:
  "(renders (snd (ensure_emote_list now max_age browser w)) = renders w
      \<longleftrightarrow> tiles (emote_list_cache w) \<noteq> []
          \<and> now - updated_at (emote_list_cache w) < of_int max_age)
   \<and> (tiles (emote_list_cache w) \<noteq> []
        \<and> now - updated_at (emote_list_cache w) < of_int max_age
      \<longrightarrow> ensure_emote_list now max_age browser w = (Inr (), w))
   \<and> (tiles (emote_list_cache w) = []
      \<longrightarrow> renders (snd (ensure_emote_list now max_age browser w)) = renders w @ [BASE_URL])"
proof (cases "cache_usable now max_age (emote_list_cache w)")
  case True
  then show ?thesis
    by (auto simp: ensure_usable cache_usable_def)
next
  case False
  from renders_ensure_fetch [OF this, of browser] False show ?thesis
    by (auto simp: cache_usable_def)
qed

theorem ensure_emote_list_refetch_iff_witness:
  "ensure_emote_list 4599 3600 (Inr []) w_one = (Inr (), w_one)
   \<and> renders (snd (ensure_emote_list 4601 3600 (Inr []) w_one)) \<noteq> renders w_one
   \<and> renders (snd (ensure_emote_list 1001 3600 (Inr [])
        (w_one\<lparr>emote_list_cache := \<lparr>updated_at = 1000, tiles = []\<rparr>\<rparr>))) = [BASE_URL]"
  using ensure_emote_list_refetch_iff [of 4599 3600 "Inr []" w_one]
    ensure_emote_list_refetch_iff [of 4601 3600 "Inr []" w_one]
    ensure_emote_list_refetch_iff [of 1001 3600 "Inr []"
      "w_one\<lparr>emote_list_cache := \<lparr>updated_at = 1000, tiles = []\<rparr>\<rparr>"]
  by (simp add: w_one_def)

text \<open>
  C3: when the list is refetched, the render succeeds and the extraction yields no tile,
  \<open>ensure_emote_list\<close> raises the HTTP error 502, sets \<open>updated_at\<close> to 0 and leaves the
  cached list of tiles as it was.
\<close>

theorem ensure_emote_list_zero_tiles:
  assumes "\<not> cache_usable now max_age (emote_list_cache w)"
    and "fst (fetch_emote_tiles_rendered browser w) = Inr []"
  shows "fst (ensure_emote_list now max_age browser w)
           = Inl (HTTPException 502 ''Parsed 0 emote tiles after rendering.'')
         \<and> updated_at (emote_list_cache (snd (ensure_emote_list now max_age browser w))) = 0
         \<and> tiles (emote_list_cache (snd (ensure_emote_list now max_age browser w)))
           = tiles (emote_list_cache w)"
  by (simp add: ensure_zero_tiles [OF assms])

theorem ensure_emote_list_zero_tiles_witness:
  "\<not> cache_usable 4601 3600 (emote_list_cache w_one)
   \<and> fst (fetch_emote_tiles_rendered (Inr [\<lparr>raw_name = Some '' '', raw_imageUrl = None\<rparr>]) w_one)
       = Inr []
   \<and> fst (ensure_emote_list 4601 3600 (Inr [\<lparr>raw_name = Some '' '', raw_imageUrl = None\<rparr>]) w_one)
       = Inl (HTTPException 502 ''Parsed 0 emote tiles after rendering.'')
   \<and> emote_list_cache
        (snd (ensure_emote_list 4601 3600 (Inr [\<lparr>raw_name = Some '' '', raw_imageUrl = None\<rparr>]) w_one))
       = \<lparr>updated_at = 0, tiles = [\<lparr>name = ''Alpha'', imageUrl = None\<rparr>]\<rparr>"
proof -
  have a: "\<not> cache_usable 4601 3600 (emote_list_cache w_one)"
    by (simp add: cache_usable_def w_one_def)
  have b: "fst (fetch_emote_tiles_rendered (Inr [\<lparr>raw_name = Some '' '', raw_imageUrl = None\<rparr>]) w_one)
       = Inr []"
    by (simp add: fetch_emote_tiles_rendered_def py_strip_def is_space_def)
  have c: "emote_list_cache
        (snd (ensure_emote_list 4601 3600 (Inr [\<lparr>raw_name = Some '' '', raw_imageUrl = None\<rparr>]) w_one))
       = \<lparr>updated_at = 0, tiles = [\<lparr>name = ''Alpha'', imageUrl = None\<rparr>]\<rparr>"
    by (simp add: ensure_zero_tiles [OF a b]) (simp add: w_one_def)
  from a b c ensure_emote_list_zero_tiles [OF a b] show ?thesis
    by simp
qed

text \<open>
  C4: when the list is refetched and the render fails with an error of the rendering
  layer, \<open>ensure_emote_list\<close> raises the HTTP error 500 and changes neither the cached
  tiles nor \<open>updated_at\<close>.
\<close>

theorem ensure_emote_list_render_error:
  assumes "\<not> cache_usable now max_age (emote_list_cache w)"
    and "browser = Inl e" and "is_playwright e"
  shows "fst (ensure_emote_list now max_age browser w)
           = Inl (HTTPException 500
               (''Playwright failed to render emotes list: '' @ type_name e @ '': '' @ message e))
         \<and> emote_list_cache (snd (ensure_emote_list now max_age browser w)) = emote_list_cache w
         \<and> detail_cache (snd (ensure_emote_list now max_age browser w)) = detail_cache w"
  using assms
  by (simp add: ensure_emote_list_def cache_usable_def fetch_emote_tiles_rendered_def)

theorem ensure_emote_list_render_error_witness:
  "\<not> cache_usable 4601 3600 (emote_list_cache w_one)
   \<and> is_playwright (PlaywrightTimeoutError ''Timeout 60000ms exceeded.'')
   \<and> fst (ensure_emote_list 4601 3600
          (Inl (PlaywrightTimeoutError ''Timeout 60000ms exceeded.'')) w_one)
       = Inl (HTTPException 500
           ''Playwright failed to render emotes list: TimeoutError: Timeout 60000ms exceeded.'')
   \<and> emote_list_cache (snd (ensure_emote_list 4601 3600
         (Inl (PlaywrightTimeoutError ''Timeout 60000ms exceeded.'')) w_one))
       = \<lparr>updated_at = 1000, tiles = [\<lparr>name = ''Alpha'', imageUrl = None\<rparr>]\<rparr>"
proof -
  have a: "\<not> cache_usable 4601 3600 (emote_list_cache w_one)"
    by (simp add: cache_usable_def w_one_def)
  have b: "is_playwright (PlaywrightTimeoutError ''Timeout 60000ms exceeded.'')"
    by simp
  from a b ensure_emote_list_render_error [OF a refl b] show ?thesis
    by (simp add: w_one_def)
qed

text \<open>
  C10: \<open>api_refresh\<close> empties the list and zeroes \<open>updated_at\<close> before the refetch. So when
  the forced refetch fails (the browser raises, or no tile is extracted) the call ends in
  an error with the list cache empty and \<open>updated_at = 0\<close>, after one render attempt;
  whereas a refetch of \<open>ensure_emote_list\<close> on a stale cache whose render raises leaves
  the list cache as it was.
\<close>

theorem api_refresh_failure_loses_list:
  "(fst (fetch_emote_tiles_rendered browser w) = Inr [] \<or> (\<exists>e. browser = Inl e)
      \<longrightarrow> (\<exists>e. fst (api_refresh now browser w) = Inl e)
          \<and> emote_list_cache (snd (api_refresh now browser w)) = \<lparr>updated_at = 0, tiles = []\<rparr>
          \<and> renders (snd (api_refresh now browser w)) = renders w @ [BASE_URL])
   \<and> (\<not> cache_usable now max_age (emote_list_cache w)
      \<longrightarrow> (\<exists>e'. fst (ensure_emote_list now max_age (Inl e) w) = Inl e')
          \<and> emote_list_cache (snd (ensure_emote_list now max_age (Inl e) w))
              = emote_list_cache w)"
proof (intro conjI impI)
  define w0 where
    "w0 = w\<lparr>emote_list_cache := (emote_list_cache w)\<lparr>updated_at := 0, tiles := []\<rparr>\<rparr>"
  have nu: "\<not> cache_usable now 0 (emote_list_cache w0)"
    by (simp add: w0_def not_usable_empty)
  have r: "api_refresh now browser w =
            (case ensure_emote_list now 0 browser w0 of
               (Inl e, w1) \<Rightarrow> (Inl e, w1)
             | (Inr u, w1) \<Rightarrow>
                 (Inr \<lparr>ok = True,
                       refreshed_count = length (tiles (emote_list_cache w1)),
                       refreshed_updatedAt = updated_at (emote_list_cache w1)\<rparr>, w1))"
    by (simp add: api_refresh_def w0_def)
  assume f: "fst (fetch_emote_tiles_rendered browser w) = Inr [] \<or> (\<exists>e. browser = Inl e)"
  have "\<exists>e' w1. ensure_emote_list now 0 browser w0 = (Inl e', w1)
          \<and> emote_list_cache w1 = \<lparr>updated_at = 0, tiles = []\<rparr>
          \<and> renders w1 = renders w @ [BASE_URL]"
  proof (cases browser)
    case (Inl e0)
    with ensure_raises_unchanged [OF nu, of e0] show ?thesis
      by (auto simp: w0_def)
  next
    case (Inr raw)
    with f have "fst (fetch_emote_tiles_rendered browser w0) = Inr []"
      by (simp add: w0_def fetch_cache_irrelevant)
    from ensure_zero_tiles [OF nu this] show ?thesis
      by (simp add: w0_def)
  qed
  then obtain e' w1 where
    e: "ensure_emote_list now 0 browser w0 = (Inl e', w1)"
      "emote_list_cache w1 = \<lparr>updated_at = 0, tiles = []\<rparr>"
      "renders w1 = renders w @ [BASE_URL]"
    by blast
  show "\<exists>e. fst (api_refresh now browser w) = Inl e"
    by (simp add: r e)
  show "emote_list_cache (snd (api_refresh now browser w)) = \<lparr>updated_at = 0, tiles = []\<rparr>"
    by (simp add: r e)
  show "renders (snd (api_refresh now browser w)) = renders w @ [BASE_URL]"
    by (simp add: r e)
next
  assume a: "\<not> cache_usable now max_age (emote_list_cache w)"
  then obtain e' where
    "ensure_emote_list now max_age (Inl e) w = (Inl e', w\<lparr>renders := renders w @ [BASE_URL]\<rparr>)"
    using ensure_raises_unchanged by blast
  then show "\<exists>e'. fst (ensure_emote_list now max_age (Inl e) w) = Inl e'"
    and "emote_list_cache (snd (ensure_emote_list now max_age (Inl e) w)) = emote_list_cache w"
    by simp_all
qed

theorem api_refresh_failure_loses_list_witness:
  "emote_list_cache (snd (api_refresh 1001 (Inl (PlaywrightError ''net::ERR_ABORTED'')) w_one))
     = \<lparr>updated_at = 0, tiles = []\<rparr>
   \<and> fst (fetch_emote_tiles_rendered (Inr []) w_one) = Inr []
   \<and> emote_list_cache (snd (api_refresh 1001 (Inr []) w_one)) = \<lparr>updated_at = 0, tiles = []\<rparr>
   \<and> \<not> cache_usable 4601 3600 (emote_list_cache w_one)
   \<and> emote_list_cache
        (snd (ensure_emote_list 4601 3600 (Inl (PlaywrightError ''net::ERR_ABORTED'')) w_one))
     = \<lparr>updated_at = 1000, tiles = [\<lparr>name = ''Alpha'', imageUrl = None\<rparr>]\<rparr>"
proof -
  have a: "fst (fetch_emote_tiles_rendered (Inr []) w_one) = Inr []"
    by (simp add: fetch_emote_tiles_rendered_def)
  have b: "\<not> cache_usable 4601 3600 (emote_list_cache w_one)"
    by (simp add: cache_usable_def w_one_def)
  from a b
    api_refresh_failure_loses_list [where browser = "Inl (PlaywrightError ''net::ERR_ABORTED'')"
      and w = w_one and now = 1001 and max_age = 0]
    api_refresh_failure_loses_list [where browser = "Inr []"
      and w = w_one and now = 1001 and max_age = 0]
    api_refresh_failure_loses_list [where browser = "Inr []"
      and w = w_one and now = 4601 and max_age = 3600
      and e = "PlaywrightError ''net::ERR_ABORTED''"]
  show ?thesis
    by (simp add: w_one_def)
qed

section \<open>The search response\<close>

lemma slice_to_take: "0 \<le> n \<Longrightarrow> slice_to xs n = take (nat n) xs"
  by (simp add: slice_to_def)

lemma api_emotes_Inr:
  assumes "api_emotes q limit now browser w = (Inr r, w1)"
  shows "1 \<le> limit \<and> limit \<le> 2000
    \<and> r = \<lparr>count = length (search_matches q (tiles (emote_list_cache w1))),
            updatedAt = updated_at (emote_list_cache w1),
            items = slice_to (search_matches q (tiles (emote_list_cache w1))) limit\<rparr>"
proof -
  from assms have l: "1 \<le> limit \<and> limit \<le> 2000"
    by (auto simp: api_emotes_def split: if_splits)
  obtain x w' where e: "ensure_emote_list now default_max_age browser w = (x, w')"
    by (cases "ensure_emote_list now default_max_age browser w")
  with assms l show ?thesis
    by (cases x) (auto simp: api_emotes_def Let_def)
qed

text \<open>
  C8: in the response of the search, \<open>count\<close> is the number of matching tiles before
  truncation and \<open>items\<close> is the first \<open>limit\<close> matching tiles in the order of the list
  cache; with the empty query every cached tile matches.
\<close>

theorem api_emotes_response:
  assumes "api_emotes q limit now browser w = (Inr r, w1)"
  shows "count r = length (filter (tile_matches q) (tiles (emote_list_cache w1)))
       \<and> items r = take (nat limit) (filter (tile_matches q) (tiles (emote_list_cache w1)))
       \<and> filter (tile_matches []) (tiles (emote_list_cache w1)) = tiles (emote_list_cache w1)
       \<and> updatedAt r = updated_at (emote_list_cache w1)"
proof -
  from api_emotes_Inr [OF assms] have l: "0 \<le> limit"
    and r: "r = \<lparr>count = length (search_matches q (tiles (emote_list_cache w1))),
            updatedAt = updated_at (emote_list_cache w1),
            items = slice_to (search_matches q (tiles (emote_list_cache w1))) limit\<rparr>"
    by simp_all
  have "filter (tile_matches []) (tiles (emote_list_cache w1)) = tiles (emote_list_cache w1)"
    by (simp add: tile_matches_def py_split_Nil)
  with r l show ?thesis
    by (simp add: search_matches_filter slice_to_take)
qed

theorem api_emotes_response_witness:
  "api_emotes ''al'' 1 1001 (Inr []) w_two
     = (Inr \<lparr>count = 2, updatedAt = 1000, items = [\<lparr>name = ''Alpha'', imageUrl = None\<rparr>]\<rparr>, w_two)
   \<and> filter (tile_matches ''al'') (tiles (emote_list_cache w_two))
     = [\<lparr>name = ''Alpha'', imageUrl = None\<rparr>, \<lparr>name = ''Alps'', imageUrl = Some ''u''\<rparr>]"
proof -
  have s: "search_matches ''al''
      [\<lparr>name = ''Alpha'', imageUrl = None\<rparr>, \<lparr>name = ''Alps'', imageUrl = Some ''u''\<rparr>,
       \<lparr>name = ''Beta'', imageUrl = None\<rparr>]
     = [\<lparr>name = ''Alpha'', imageUrl = None\<rparr>, \<lparr>name = ''Alps'', imageUrl = Some ''u''\<rparr>]"
    by code_simp
  have u: "cache_usable 1001 default_max_age (emote_list_cache w_two)"
    by (simp add: cache_usable_def default_max_age_def w_two_def)
  have t: "tiles (emote_list_cache w_two) =
      [\<lparr>name = ''Alpha'', imageUrl = None\<rparr>, \<lparr>name = ''Alps'', imageUrl = Some ''u''\<rparr>,
       \<lparr>name = ''Beta'', imageUrl = None\<rparr>]"
    by (simp add: w_two_def)
  have u2: "updated_at (emote_list_cache w_two) = 1000"
    by (simp add: w_two_def)
  have a: "api_emotes ''al'' 1 1001 (Inr []) w_two
     = (Inr \<lparr>count = 2, updatedAt = 1000, items = [\<lparr>name = ''Alpha'', imageUrl = None\<rparr>]\<rparr>, w_two)"
    by (simp add: api_emotes_def ensure_usable [OF u] t s u2 slice_to_def)
  from s have f: "filter (tile_matches ''al'') (tiles (emote_list_cache w_two))
     = [\<lparr>name = ''Alpha'', imageUrl = None\<rparr>, \<lparr>name = ''Alps'', imageUrl = Some ''u''\<rparr>]"
    by (simp only: search_matches_filter t)
  from api_emotes_response [OF a] a f show ?thesis
    by blast
qed

section \<open>The detail request\<close>

lemma ensure_renders_irrelevant:
  "fst (ensure_emote_list now m browser (w\<lparr>renders := x\<rparr>))
     = fst (ensure_emote_list now m browser w)"
  by (cases browser)
     (auto simp: ensure_emote_list_def fetch_emote_tiles_rendered_def)

text \<open>
  C9: in a detail request that renders and parses its page, when \<open>ensure_emote_list\<close>
  raises (any exception, also the failure of the list refresh), the request still
  returns a record: its \<open>imageUrl\<close> is null, its other fields are those
  \<open>parse_emote_details\<close> produced, and this record is stored in the detail cache.
\<close>

theorem api_emote_detail_enrichment_failure:
  assumes "\<not> detail_fresh w emote_name t_cached"
    and "page = Inr html"
    and "fst (ensure_emote_list t_list default_max_age browser w) = Inl e"
  shows "\<exists>r. fst (api_emote_detail urlparse_path emote_name t_cached page t_list browser t_store w)
               = Inr r
            \<and> detail_imageUrl r = None
            \<and> details.truncate r = parse_emote_details urlparse_path emote_name html
            \<and> detail_cache
                 (snd (api_emote_detail urlparse_path emote_name t_cached page t_list browser
                    t_store w)) emote_name
               = Some \<lparr>cachedAt = t_store, data = r\<rparr>"
proof -
  define w1 where "w1 = w\<lparr>renders := renders w @ [BASE_URL @ ''?emoteName='' @ emote_name]\<rparr>"
  obtain x w2 where e: "ensure_emote_list t_list default_max_age browser w1 = (x, w2)"
    by (cases "ensure_emote_list t_list default_max_age browser w1")
  have "fst (ensure_emote_list t_list default_max_age browser w1) = Inl e"
    using assms(3) by (simp add: w1_def ensure_renders_irrelevant)
  with e have x: "x = Inl e" by simp
  have c: "(case detail_cache w emote_name of
              None \<Rightarrow> None
            | Some cached \<Rightarrow>
                if t_cached - cachedAt cached < 24 * 60 * 60 then Some (data cached) else None)
           = None"
    using assms(1) by (cases "detail_cache w emote_name") (simp_all add: detail_fresh_def)
  have "api_emote_detail urlparse_path emote_name t_cached page t_list browser t_store w
      = (Inr (details.extend (parse_emote_details urlparse_path emote_name html)
               (detail_record.fields None)),
         w2\<lparr>detail_cache := (detail_cache w2)(emote_name \<mapsto>
              \<lparr>cachedAt = t_store,
               data = details.extend (parse_emote_details urlparse_path emote_name html)
                        (detail_record.fields None)\<rparr>)\<rparr>)"
    unfolding api_emote_detail_def c
    using e x by (simp add: assms(2) render_page_html_def w1_def Let_def)
  then show ?thesis
    by (simp add: details.defs detail_record.defs)
qed

theorem api_emote_detail_enrichment_failure_witness:
  "\<not> detail_fresh w_one ''Golden Goat'' 30000
   \<and> fst (ensure_emote_list 30000 default_max_age (Inl (PlaywrightError ''net::ERR_ABORTED'')) w_one)
       = Inl (HTTPException 500 ''Playwright failed to render emotes list: Error: net::ERR_ABORTED'')
   \<and> (\<exists>r. fst (api_emote_detail (\<lambda>u. None) ''Golden Goat'' 30000 (Inr page_goat) 30000
                (Inl (PlaywrightError ''net::ERR_ABORTED'')) 30001 w_one) = Inr r
          \<and> detail_imageUrl r = None
          \<and> details.truncate r = parse_emote_details (\<lambda>u. None) ''Golden Goat'' page_goat)"
proof -
  have a: "\<not> detail_fresh w_one ''Golden Goat'' 30000"
    by (simp add: detail_fresh_def w_one_def)
  have b: "fst (ensure_emote_list 30000 default_max_age
              (Inl (PlaywrightError ''net::ERR_ABORTED'')) w_one)
       = Inl (HTTPException 500 ''Playwright failed to render emotes list: Error: net::ERR_ABORTED'')"
    by (simp add: ensure_emote_list_def fetch_emote_tiles_rendered_def default_max_age_def
        w_one_def)
  from api_emote_detail_enrichment_failure [OF a refl b, of "\<lambda>u. None" page_goat 30001] a b
  show ?thesis
    by blast
qed

section \<open>The stored tile list\<close>

lemma dedup_first_by_name:
  "dedup raw seen out =
     out @ first_by_name (filter (\<lambda>t. name t \<notin> seen)
             (filter (\<lambda>t. name t \<noteq> []) (map strip_tile raw)))"
proof (induction raw arbitrary: seen out)
  case Nil
  then show ?case by simp
next
  case (Cons t raw)
  let ?n = "py_strip (case raw_name t of None \<Rightarrow> [] | Some s \<Rightarrow> s)"
  have n: "name (strip_tile t) = ?n" by (simp add: strip_tile_def)
  have st: "strip_tile t = \<lparr>name = ?n, imageUrl = raw_imageUrl t\<rparr>" by (simp add: strip_tile_def)
  show ?case
  proof (cases "?n = [] \<or> ?n \<in> seen")
    case True
    then show ?thesis using Cons.IH [of seen out] n by (auto simp: Let_def)
  next
    case False
    from False show ?thesis
      using Cons.IH [of "insert ?n seen" "out @ [\<lparr>name = ?n, imageUrl = raw_imageUrl t\<rparr>]"] n
      by (simp add: Let_def st [symmetric] conj_ac)
  qed
qed

lemma fetch_stored:
  "fst (fetch_emote_tiles_rendered (Inr raw) w) = Inr (stored_tiles raw)"
  by (simp add: fetch_emote_tiles_rendered_def stored_tiles_def sort_by_lower_name_def
      dedup_first_by_name)

lemma set_first_by_name: "set (first_by_name ts) \<subseteq> set ts"
  by (induction ts rule: first_by_name.induct) auto

lemma names_first_by_name: "name ` set (first_by_name ts) = name ` set ts"
proof (induction ts rule: first_by_name.induct)
  case 1
  then show ?case by simp
next
  case (2 t ts)
  have "name ` set (t # ts) = insert (name t) (name ` set (filter (\<lambda>u. name u \<noteq> name t) ts))"
    by auto
  with 2 show ?case by simp
qed

lemma distinct_first_by_name: "distinct (map name (first_by_name ts))"
proof (induction ts rule: first_by_name.induct)
  case 1
  then show ?case by simp
next
  case (2 t ts)
  have "name t \<notin> name ` set (first_by_name (filter (\<lambda>u. name u \<noteq> name t) ts))"
    using set_first_by_name [of "filter (\<lambda>u. name u \<noteq> name t) ts"] by auto
  with 2 show ?case by simp
qed

lemma find_first_by_name:
  "find (\<lambda>u. name u = n) (first_by_name ts) = find (\<lambda>u. name u = n) ts"
proof (induction ts rule: first_by_name.induct)
  case 1
  then show ?case by simp
next
  case (2 t ts)
  have "name t \<noteq> n \<Longrightarrow>
      find (\<lambda>u. name u = n) (filter (\<lambda>u. name u \<noteq> name t) ts) = find (\<lambda>u. name u = n) ts"
    by (induction ts) auto
  with 2 show ?case by simp
qed

lemma distinct_map_insort_key:
  "distinct (map f (insort_key k x xs)) \<longleftrightarrow> f x \<notin> f ` set xs \<and> distinct (map f xs)"
  by (induction xs) (auto simp: set_insort_key)

lemma distinct_map_sort_key: "distinct (map f (sort_key k xs)) = distinct (map f xs)"
  by (induction xs) (simp_all add: distinct_map_insort_key)

lemma find_unique:
  "distinct (map f xs) \<Longrightarrow> find (\<lambda>u. f u = n) xs = Some t \<longleftrightarrow> t \<in> set xs \<and> f t = n"
  by (induction xs) auto

lemma find_none: "find P xs = None \<longleftrightarrow> (\<forall>x\<in>set xs. \<not> P x)"
  by (induction xs) auto

lemma find_sort_key:
  assumes "distinct (map f xs)"
  shows "find (\<lambda>u. f u = n) (sort_key k xs) = find (\<lambda>u. f u = n) xs"
proof (cases "find (\<lambda>u. f u = n) xs")
  case None
  then have "find (\<lambda>u. f u = n) (sort_key k xs) = None"
    by (simp add: find_none)
  with None show ?thesis by simp
next
  case (Some t)
  with assms have "t \<in> set xs \<and> f t = n" by (simp add: find_unique)
  moreover from assms have "distinct (map f (sort_key k xs))" by (simp add: distinct_map_sort_key)
  ultimately have "find (\<lambda>u. f u = n) (sort_key k xs) = Some t"
    by (simp add: find_unique)
  with Some show ?thesis by simp
qed


text \<open>
  C6, as amended: for every list of raw tiles the page script returns, the stored list
  is obtained by stripping the whitespace around each name, dropping the names that are
  then empty, keeping for each name its first tile (exact, case-sensitive comparison of
  the stripped names), and sorting ascending by the lowercased name. So no two stored
  tiles share a name, the keys are in ascending order, and the tile stored under a name
  is the first one of that name.
\<close>

theorem stored_tiles_spec:
  "fst (fetch_emote_tiles_rendered (Inr raw) w) = Inr (stored_tiles raw)
   \<and> distinct (map name (stored_tiles raw))
   \<and> sorted (map (\<lambda>t. py_lower (name t)) (stored_tiles raw))
   \<and> find (\<lambda>t. name t = n) (stored_tiles raw)
       = find (\<lambda>t. name t = n) (filter (\<lambda>t. name t \<noteq> []) (map strip_tile raw))"
  by (simp add: fetch_stored stored_tiles_def sort_by_lower_name_def distinct_map_sort_key
      distinct_first_by_name find_sort_key find_first_by_name)

theorem stored_tiles_spec_witness:
  "fst (fetch_emote_tiles_rendered (Inr raw_zeta) w_one)
     = Inr [\<lparr>name = ''Alpha'', imageUrl = Some ''u2''\<rparr>, \<lparr>name = ''Zeta'', imageUrl = Some ''u1''\<rparr>]
   \<and> find (\<lambda>t. name t = ''Zeta'') (stored_tiles raw_zeta)
     = Some \<lparr>name = ''Zeta'', imageUrl = Some ''u1''\<rparr>"
proof -
  have e: "stored_tiles raw_zeta
     = [\<lparr>name = ''Alpha'', imageUrl = Some ''u2''\<rparr>, \<lparr>name = ''Zeta'', imageUrl = Some ''u1''\<rparr>]"
    by code_simp
  from stored_tiles_spec [of raw_zeta w_one "''Zeta''"] show ?thesis
    by (simp add: e)
qed


text \<open>
  The claim as worded (no stripping) fails on a name with a leading space: the code
  stores \<open>A\<close>, the wording keeps the space.
\<close>

theorem stored_tiles_not_as_claimed:
  "fst (fetch_emote_tiles_rendered (Inr raw_padded) w_one)
     = Inr [\<lparr>name = ''A'', imageUrl = None\<rparr>]
   \<and> stored_as_claimed raw_padded = [\<lparr>name = '' A'', imageUrl = None\<rparr>]
   \<and> fst (fetch_emote_tiles_rendered (Inr raw_padded) w_one) \<noteq> Inr (stored_as_claimed raw_padded)"
proof -
  have a: "stored_tiles raw_padded = [\<lparr>name = ''A'', imageUrl = None\<rparr>]"
    by code_simp
  have b: "stored_as_claimed raw_padded = [\<lparr>name = '' A'', imageUrl = None\<rparr>]"
    by code_simp
  show ?thesis
    by (simp add: fetch_stored a b)
qed


section \<open>Positional fields\<close>

lemma list_index_None: "list_index xs x = None \<longleftrightarrow> x \<notin> set xs"
  by (induction xs) auto

lemma list_index_Some:
  "list_index xs x = Some k \<longleftrightarrow> k < length xs \<and> xs ! k = x \<and> (\<forall>j<k. xs ! j \<noteq> x)"
proof (induction xs arbitrary: k)
  case Nil
  then show ?case by simp
next
  case (Cons y ys)
  show ?case
  proof (cases "y = x")
    case True
    then show ?thesis by (cases k) auto
  next
    case False
    show ?thesis
    proof (cases k)
      case 0
      with False show ?thesis by auto
    next
      case (Suc m)
      have "(\<forall>j<Suc m. (y # ys) ! j \<noteq> x) \<longleftrightarrow> (\<forall>j<m. ys ! j \<noteq> x)"
        using False by (auto simp: less_Suc_eq_0_disj)
      with Suc False Cons.IH [of m] show ?thesis by auto
    qed
  qed
qed

lemma list_index_from_first_at:
  assumes "first_at xs x s k"
  shows "list_index_from xs x s = Some k"
proof -
  from assms have sk: "s \<le> k" and k: "k < length xs" and x: "xs ! k = x"
    and f: "\<forall>j\<in>{s..<k}. xs ! j \<noteq> x"
    by (simp_all add: first_at_def)
  have "list_index (drop s xs) x = Some (k - s)"
  proof (subst list_index_Some, intro conjI allI impI)
    show "k - s < length (drop s xs)" using sk k by simp
    show "drop s xs ! (k - s) = x" using sk k x by simp
    fix j assume "j < k - s"
    then have "s + j \<in> {s..<k}" by simp
    with f have "xs ! (s + j) \<noteq> x" by blast
    moreover have "s + j \<le> length xs" using \<open>j < k - s\<close> k by simp
    ultimately show "drop s xs ! j \<noteq> x" by simp
  qed
  with sk show ?thesis by (simp add: list_index_from_def)
qed

lemma list_index_from_absent:
  assumes "\<forall>k\<in>{s..<length xs}. xs ! k \<noteq> x"
  shows "list_index_from xs x s = None"
proof -
  have "x \<notin> set (drop s xs)"
  proof
    assume "x \<in> set (drop s xs)"
    then obtain j where j: "j < length (drop s xs)" and "drop s xs ! j = x"
      by (auto simp: in_set_conv_nth)
    then have "xs ! (s + j) = x" and "s + j \<in> {s..<length xs}" by auto
    with assms show False by blast
  qed
  then show ?thesis by (simp add: list_index_from_def list_index_None)
qed

lemma list_index_first_at: "first_at xs x 0 k \<Longrightarrow> list_index xs x = Some k"
  by (simp add: list_index_Some first_at_def)

text \<open>\<open>first_at xs x 0 k\<close> says that \<open>k\<close> is the index \<open>xs.index(x)\<close> returns.\<close>

lemma first_at_iff_list_index: "first_at xs x 0 k \<longleftrightarrow> list_index xs x = Some k"
  by (auto simp: list_index_Some first_at_def)

lemma first_at_in_set: "first_at xs x s k \<Longrightarrow> x \<in> set xs"
  by (auto simp: first_at_def)

lemma line_after_Some:
  "line_after lines (Some k) = (if k + 1 < length lines then Some (lines ! (k + 1)) else None)"
  by (simp add: line_after_def)

lemma positional_fields_present:
  assumes "first_at lines emote_name 0 i"
  shows "positional_fields emote_name lines =
     (if i + 2 < length lines then Some (lines ! (i + 2)) else None,
      if i + 3 < length lines then Some (lines ! (i + 3)) else None,
      line_after lines (list_index_from lines ''Expires:'' i))"
  using first_at_in_set [OF assms] list_index_first_at [OF assms]
  by (simp add: positional_fields_def Let_def)

lemma positional_fields_absent:
  assumes "emote_name \<notin> set lines"
  shows "positional_fields emote_name lines =
           (None, None, line_after lines (list_index_from lines ''Expires:'' 0))"
proof -
  have "map_option (\<lambda>j. j) r = r" for r :: "nat option"
    by (cases r) simp_all
  with assms show ?thesis
    by (simp add: positional_fields_def list_index_from_def)
qed

lemma parse_emote_details_fields:
  "source (parse_emote_details urlparse_path emote_name html)
     = fst (positional_fields emote_name (flatten_lines (page_text html)))
   \<and> tier (parse_emote_details urlparse_path emote_name html)
     = fst (snd (positional_fields emote_name (flatten_lines (page_text html))))
   \<and> expires (parse_emote_details urlparse_path emote_name html)
     = snd (snd (positional_fields emote_name (flatten_lines (page_text html))))"
  by (simp add: parse_emote_details_def Let_def split: prod.splits)

lemma parse_emote_details_page_goat: "parse_emote_details (\<lambda>u. None) ''Golden Goat'' page_goat =
    \<lparr>emoteName = ''Golden Goat'', channel = Some ''SomeChannel'',
     channelUrl = Some ''https://www.twitch.tv/somechannel'',
     source = Some ''Sub Gift'', tier = Some ''Tier 3'', expires = Some ''2025-01-01'',
     detailsUrl = ''https://pixelbypixel.studio/emotes?emoteName=Golden Goat'', notFound = False\<rparr>"
  by code_simp


text \<open>
  C5: the fields \<open>source\<close>, \<open>tier\<close> and \<open>expires\<close> of the record are the three values
  of the positional block on the flattened lines, and for every list of lines: when the
  requested name occurs in it and \<open>i\<close> is the index recorded for it (the one
  \<open>lines.index\<close> returns), \<open>source\<close> is the line at \<open>i + 2\<close> and \<open>tier\<close> the line at
  \<open>i + 3\<close> when those indices exist (null otherwise); independently, \<open>expires\<close> is the
  line that follows the first \<open>Expires:\<close> line at an index \<open>\<ge> i\<close> (from the start when the
  name is absent), and stays null when no such line follows. The six lines of the
  example give \<open>Sub Gift\<close>, \<open>Tier 3\<close> and \<open>2025-01-01\<close>.
\<close>

theorem positional_fields_first_index:
  "(source (parse_emote_details urlparse_path emote_name html)
      = fst (positional_fields emote_name (flatten_lines (page_text html)))
    \<and> tier (parse_emote_details urlparse_path emote_name html)
      = fst (snd (positional_fields emote_name (flatten_lines (page_text html))))
    \<and> expires (parse_emote_details urlparse_path emote_name html)
      = snd (snd (positional_fields emote_name (flatten_lines (page_text html)))))
   \<and> (first_at lines emote_name 0 i \<longrightarrow>
      fst (positional_fields emote_name lines)
        = (if i + 2 < length lines then Some (lines ! (i + 2)) else None)
    \<and> fst (snd (positional_fields emote_name lines))
        = (if i + 3 < length lines then Some (lines ! (i + 3)) else None)
    \<and> (first_at lines ''Expires:'' i k \<longrightarrow>
        snd (snd (positional_fields emote_name lines))
          = (if k + 1 < length lines then Some (lines ! (k + 1)) else None))
    \<and> ((\<forall>j\<in>{i..<length lines}. lines ! j \<noteq> ''Expires:'') \<longrightarrow>
        snd (snd (positional_fields emote_name lines)) = None))
   \<and> (emote_name \<notin> set lines \<longrightarrow>
      fst (positional_fields emote_name lines) = None
    \<and> fst (snd (positional_fields emote_name lines)) = None
    \<and> (first_at lines ''Expires:'' 0 k \<longrightarrow>
        snd (snd (positional_fields emote_name lines))
          = (if k + 1 < length lines then Some (lines ! (k + 1)) else None))
    \<and> ((\<forall>j\<in>{0..<length lines}. lines ! j \<noteq> ''Expires:'') \<longrightarrow>
        snd (snd (positional_fields emote_name lines)) = None))
   \<and> positional_fields ''Golden Goat''
        [''Golden Goat'', ''SomeChannel'', ''Sub Gift'', ''Tier 3'', ''Expires:'', ''2025-01-01'']
      = (Some ''Sub Gift'', Some ''Tier 3'', Some ''2025-01-01'')"
proof (intro conjI impI)
  show "positional_fields ''Golden Goat''
        [''Golden Goat'', ''SomeChannel'', ''Sub Gift'', ''Tier 3'', ''Expires:'', ''2025-01-01'']
      = (Some ''Sub Gift'', Some ''Tier 3'', Some ''2025-01-01'')"
    by (simp add: positional_fields_def list_index_from_def line_after_def)
qed (simp_all add: parse_emote_details_fields positional_fields_present positional_fields_absent
      list_index_from_first_at list_index_from_absent line_after_Some,
     simp_all add: line_after_def)

theorem positional_fields_first_index_witness:
  "first_at twice_lines ''A'' 0 0
   \<and> fst (positional_fields ''A'' twice_lines) = Some ''x''
   \<and> fst (snd (positional_fields ''A'' twice_lines)) = Some ''y''
   \<and> snd (snd (positional_fields ''A'' twice_lines)) = None
   \<and> first_at goat_lines ''Golden Goat'' 0 0
   \<and> first_at goat_lines ''Expires:'' 0 4
   \<and> snd (snd (positional_fields ''Golden Goat'' goat_lines)) = Some ''2025-01-01''
   \<and> ''Zed'' \<notin> set goat_lines
   \<and> positional_fields ''Zed'' goat_lines = (None, None, Some ''2025-01-01'')"
proof -
  have a: "first_at twice_lines ''A'' 0 0" by code_simp
  have b: "\<forall>j\<in>{0..<length twice_lines}. twice_lines ! j \<noteq> ''Expires:''" by code_simp
  have c: "first_at goat_lines ''Golden Goat'' 0 0" by code_simp
  have d: "first_at goat_lines ''Expires:'' 0 4" by code_simp
  have e: "''Zed'' \<notin> set goat_lines" by code_simp
  have l: "length twice_lines = 4" "twice_lines ! 2 = ''x''" "twice_lines ! 3 = ''y''"
    "length goat_lines = 6" "goat_lines ! 5 = ''2025-01-01''"
    "twice_lines ! Suc (Suc 0) = ''x''"
    by (simp_all add: twice_lines_def goat_lines_def)
  from a b c d e
    positional_fields_first_index [where lines = twice_lines and emote_name = "''A''"
      and i = 0 and k = 0]
    positional_fields_first_index [where lines = goat_lines and emote_name = "''Golden Goat''"
      and i = 0 and k = 4]
    positional_fields_first_index [where lines = goat_lines and emote_name = "''Zed''"
      and i = 0 and k = 4]
  show ?thesis
    by (simp add: l prod_eq_iff)
qed


section \<open>The channel\<close>

lemma first_labelled_text: "first_labelled as = Some (h, t) \<Longrightarrow> t \<noteq> []"
  by (induction as) (auto split: if_splits)


text \<open>
  The fallback block never changes the result: \<open>channel_url\<close> is only set together with
  a text that is not empty.
\<close>

lemma parse_channel_fallback_dead:
  "parse_channel urlparse_path as =
     (case first_labelled as of None \<Rightarrow> (None, None) | Some (h, t) \<Rightarrow> (Some h, Some t))"
proof (cases "first_labelled as")
  case None
  then show ?thesis by (simp add: parse_channel_def)
next
  case (Some p)
  obtain h t where p: "p = (h, t)" by (cases p)
  with Some have "t \<noteq> []" by (simp add: first_labelled_text)
  with Some p show ?thesis by (simp add: parse_channel_def)
qed


text \<open>
  C7: the channel comes from the first link with visible text; a link without visible
  text should give a label derived from the first segment of its path. The code does not:
  for a page whose only channel link has no text, \<open>channel\<close> and \<open>channelUrl\<close> are null.
\<close>

theorem parse_emote_details_unlabelled_link:
  "channel (parse_emote_details urlparse_path emote_name
      \<lparr>twitch_anchors = unlabelled_link, page_text = txt\<rparr>) = None
   \<and> channelUrl (parse_emote_details urlparse_path emote_name
      \<lparr>twitch_anchors = unlabelled_link, page_text = txt\<rparr>) = None"
  by (simp add: parse_emote_details_def parse_channel_fallback_dead unlabelled_link_def Let_def
      split: prod.splits)

end
